theory Spec2Isabelle
  imports Main "HOL-Library.Multiset"
begin

section \<open>Data shapes\<close>

text \<open>
  The two React components (the admin panel and the public stage view) are embedded as
  pure functions from the component state and the behaviour of the remote server to
  the new component state and the list of effects the handler performed, in the order
  the handler performs them. A field \<open>f\<close> of a fetched item of type \<open>T\<close> is
  written \<open>T_f\<close>, because the admin panel has state variables that carry the same
  names as item fields (\<open>projectName\<close>, \<open>stages\<close>).
\<close>

text \<open>
  Modelled from the spec: the declaration of \<open>Stage\<close> is imported from a types module
  that is not among the sources. The spec gives its shape as
  \<open>Stage{id, name, status, order}\<close>; the handlers read \<open>id\<close>, \<open>name\<close> and
  \<open>status\<close>. The status is kept as a string, as it is at run time (the admin panel
  declares it \<open>string\<close> and branches on arbitrary values).
\<close>

record stage =
  stage_id :: int
  stage_name :: string
  stage_status :: string
  stage_order :: int

text \<open>
  The admin panel types what it fetches as \<open>any\<close>. A project is given the two
  fields the panel reads from it, both strings (\<open>projectId\<close> is what the
  delete handler and the project selector take as a \<open>string\<close>).
\<close>

record project =
  project_projectId :: string
  project_projectName :: string

record download =
  download_id :: int
  download_name :: string
  download_description :: string
  download_url :: string

section \<open>Effects\<close>

datatype verb = GET | POST | PUT | DELETE

text \<open>The second argument of an axios call: the JSON object sent with the request.\<close>

datatype payload =
    NoData
  | ProjectData string "stage list"
  | StageData string
  | DownloadData string string string
  | StatusData string
  | ReorderData "stage option list"

record request =
  verb :: verb
  url :: string
  data :: payload

datatype icon = IconError | IconSuccess | IconWarning

text \<open>
  Everything a handler does to the outside world. \<open>Alert title text icon\<close> is a
  SweetAlert modal; \<open>Unhandled\<close> is a rejected promise that leaves the handler with no
  \<open>catch\<close> around it; \<open>StorageSet\<close> and \<open>HistoryReplace\<close> are the browser's
  \<open>localStorage.setItem\<close> and \<open>history.replaceState\<close>.
\<close>

datatype event =
    Http request
  | Alert string string icon
  | ConsoleError string
  | StorageSet string string
  | HistoryReplace string
  | Unhandled

text \<open>
  The remote collaborator during one operation: which requests resolve (the others
  reject), and what the three GET endpoints answer with. \<open>stagesData\<close> is
  \<open>response.data.stages\<close> of \<open>GET /projects/:id\<close>, \<open>None\<close> when it is missing.
\<close>

record server =
  resolves :: "request \<Rightarrow> bool"
  projectsData :: "project list"
  downloadsData :: "download list"
  stagesData :: "string \<Rightarrow> stage list option"

fun requestsOf :: "event list \<Rightarrow> request list" where
  "requestsOf [] = []"
| "requestsOf (Http r # es) = r # requestsOf es"
| "requestsOf (e # es) = requestsOf es"

definition requestLine :: "request \<Rightarrow> verb \<times> string" where
  "requestLine r = (verb r, url r)"

fun alertsOf :: "event list \<Rightarrow> event list" where
  "alertsOf [] = []"
| "alertsOf (Alert t x i # es) = Alert t x i # alertsOf es"
| "alertsOf (e # es) = alertsOf es"

fun browserWritesOf :: "event list \<Rightarrow> event list" where
  "browserWritesOf [] = []"
| "browserWritesOf (StorageSet k v # es) = StorageSet k v # browserWritesOf es"
| "browserWritesOf (HistoryReplace u # es) = HistoryReplace u # browserWritesOf es"
| "browserWritesOf (e # es) = browserWritesOf es"

fun unhandledOf :: "event list \<Rightarrow> event list" where
  "unhandledOf [] = []"
| "unhandledOf (Unhandled # es) = Unhandled # unhandledOf es"
| "unhandledOf (e # es) = unhandledOf es"

section \<open>JavaScript primitives\<close>

text \<open>
  \<open>String.prototype.toLowerCase\<close> is a built-in of the language, a function from
  strings to strings whose table of cased letters is not code of this repository. The
  one handler that calls it takes it as its first argument, so that what is proved of
  the handler holds for the built-in, whatever letters it folds.
\<close>

text \<open>A number interpolated into a template literal: its decimal digits.\<close>

fun natToString :: "nat \<Rightarrow> string" where
  "natToString n =
     (if n < 10 then [char_of (48 + n)]
      else natToString (n div 10) @ [char_of (48 + n mod 10)])"

declare natToString.simps [simp del]

definition numberToString :: "int \<Rightarrow> string" where
  "numberToString i = (if i < 0 then CHR ''-'' # natToString (nat (- i)) else natToString (nat i))"

text \<open>
  \<open>Array.prototype.splice(start, deleteCount, ...items)\<close>: a negative start counts
  from the end, both numbers are clamped to the array. The result is the removed
  elements and the array afterwards.
\<close>

definition spliceArray :: "'a list \<Rightarrow> int \<Rightarrow> int \<Rightarrow> 'a list \<Rightarrow> 'a list \<times> 'a list" where
  "spliceArray xs start deleteCount items =
     (let len = int (length xs);
          actualStart = (if start < 0 then max (len + start) 0 else min start len);
          actualDeleteCount = min (max deleteCount 0) (len - actualStart);
          s = nat actualStart;
          k = nat actualDeleteCount
      in (take k (drop s xs), take s xs @ items @ drop (s + k) xs))"

definition baseUrl :: string where
  "baseUrl = ''https://app-back-99ll.onrender.com''"

section \<open>The admin panel\<close>

record adminPanel =
  projects :: "project list"
  stages :: "stage list"
  downloads :: "download list"
  projectName :: string
  stageName :: string
  downloadName :: string
  downloadDescription :: string
  downloadUrl :: string
  selectedProject :: "string option"

text \<open>
  The three fetch functions. Each is split into the request it issues and what happens
  when the request settles, because the handlers call them without \<open>await\<close>: the
  request goes out at the call, the handler runs on to its end, and the list is
  replaced (or the failure logged) afterwards.
\<close>

definition getProjects :: request where
  "getProjects = \<lparr>verb = GET, url = baseUrl @ ''/projects'', data = NoData\<rparr>"

definition fetchProjects_settle :: "server \<Rightarrow> adminPanel \<Rightarrow> adminPanel \<times> event list" where
  "fetchProjects_settle srv st =
     (if resolves srv getProjects then (st\<lparr>projects := projectsData srv\<rparr>, [])
      else (st, [ConsoleError ''Error fetching projects:'']))"

definition fetchProjects :: "server \<Rightarrow> adminPanel \<Rightarrow> adminPanel \<times> event list" where
  "fetchProjects srv st =
     (let (st', late) = fetchProjects_settle srv st in (st', Http getProjects # late))"

definition getDownloads :: request where
  "getDownloads = \<lparr>verb = GET, url = baseUrl @ ''/downloads'', data = NoData\<rparr>"

definition fetchDownloads_settle :: "server \<Rightarrow> adminPanel \<Rightarrow> adminPanel \<times> event list" where
  "fetchDownloads_settle srv st =
     (if resolves srv getDownloads then (st\<lparr>downloads := downloadsData srv\<rparr>, [])
      else (st, [ConsoleError ''Error fetching downloads:'']))"

definition fetchDownloads :: "server \<Rightarrow> adminPanel \<Rightarrow> adminPanel \<times> event list" where
  "fetchDownloads srv st =
     (let (st', late) = fetchDownloads_settle srv st in (st', Http getDownloads # late))"

definition getStages :: "string \<Rightarrow> request" where
  "getStages sel = \<lparr>verb = GET, url = baseUrl @ ''/projects/'' @ sel, data = NoData\<rparr>"

definition fetchStages_settle :: "server \<Rightarrow> string \<Rightarrow> adminPanel \<Rightarrow> adminPanel \<times> event list" where
  "fetchStages_settle srv sel st =
     (if resolves srv (getStages sel)
      then (st\<lparr>stages := (case stagesData srv sel of Some ss \<Rightarrow> ss | None \<Rightarrow> [])\<rparr>, [])
      else (st, [ConsoleError ''Error fetching stages:'']))"

definition fetchStages :: "server \<Rightarrow> adminPanel \<Rightarrow> adminPanel \<times> event list" where
  "fetchStages srv st =
     (case selectedProject st of
        Some sel \<Rightarrow>
          (if sel \<noteq> []
           then (let (st', late) = fetchStages_settle srv sel st
                 in (st', Http (getStages sel) # late))
           else (st\<lparr>stages := []\<rparr>, []))
      | None \<Rightarrow> (st\<lparr>stages := []\<rparr>, []))"

definition postProject :: "adminPanel \<Rightarrow> request" where
  "postProject st =
     \<lparr>verb = POST, url = baseUrl @ ''/projects'',
      data = ProjectData (projectName st) (stages st)\<rparr>"

definition handleAddProject ::
    "(string \<Rightarrow> string) \<Rightarrow> server \<Rightarrow> adminPanel \<Rightarrow> adminPanel \<times> event list" where
  "handleAddProject toLowerCase srv st =
     (if length (projectName st) > 0 then
        (case find (\<lambda>p. toLowerCase (project_projectName p) = toLowerCase (projectName st))
                (projects st) of
           Some existingProject \<Rightarrow>
             (st, [Alert ''Error''
                     ''Project name already exists. Please choose a different name.''
                     IconError])
         | None \<Rightarrow>
             (if resolves srv (postProject st) then
                (let (st', late) =
                       fetchProjects_settle srv (st\<lparr>projectName := [], stages := []\<rparr>)
                 in (st', [Http (postProject st), Http getProjects,
                           Alert ''Success'' ''Project added successfully!'' IconSuccess]
                          @ late))
              else
                (st, [Http (postProject st), ConsoleError ''Error adding project:'',
                      Alert ''Error'' ''Error adding project. Please try again.'' IconError])))
      else (st, [Alert ''Error'' ''Please provide a project name.'' IconError]))"

definition postStage :: "string \<Rightarrow> adminPanel \<Rightarrow> request" where
  "postStage sel st =
     \<lparr>verb = POST, url = baseUrl @ ''/projects/stage/'' @ sel, data = StageData (stageName st)\<rparr>"

definition handleAddStage :: "server \<Rightarrow> adminPanel \<Rightarrow> adminPanel \<times> event list" where
  "handleAddStage srv st =
     (case selectedProject st of
        Some sel \<Rightarrow>
          (if sel \<noteq> [] \<and> stageName st \<noteq> [] then
             (if resolves srv (postStage sel st) then
                (let (st', late) = fetchStages_settle srv sel (st\<lparr>stageName := []\<rparr>)
                 in (st', [Http (postStage sel st), Http (getStages sel),
                           Alert ''Success'' ''Stage added successfully!'' IconSuccess]
                          @ late))
              else
                (st, [Http (postStage sel st), ConsoleError ''Error adding stage:'',
                      Alert ''Error'' ''Error adding stage. Please try again.'' IconError]))
           else (st, []))
      | None \<Rightarrow> (st, []))"

definition postDownload :: "adminPanel \<Rightarrow> request" where
  "postDownload st =
     \<lparr>verb = POST, url = baseUrl @ ''/downloads'',
      data = DownloadData (downloadName st) (downloadDescription st) (downloadUrl st)\<rparr>"

definition handleAddDownload :: "server \<Rightarrow> adminPanel \<Rightarrow> adminPanel \<times> event list" where
  "handleAddDownload srv st =
     (if downloadName st \<noteq> [] \<and> downloadDescription st \<noteq> [] \<and> downloadUrl st \<noteq> [] then
        (if resolves srv (postDownload st) then
           (let (st', late) =
                  fetchDownloads_settle srv
                    (st\<lparr>downloadName := [], downloadDescription := [], downloadUrl := []\<rparr>)
            in (st', [Http (postDownload st), Http getDownloads,
                      Alert ''Success'' ''Download added successfully!'' IconSuccess]
                     @ late))
         else
           (st, [Http (postDownload st), ConsoleError ''Error adding download:'',
                 Alert ''Error'' ''Error adding download. Please try again.'' IconError]))
      else (st, []))"

text \<open>The status the toggle button asks the server to store.\<close>

definition newStatus :: "string \<Rightarrow> string" where
  "newStatus currentStatus =
     (if currentStatus = ''ongoing'' then ''completed''
      else if currentStatus = ''completed'' then ''incomplete''
      else ''ongoing'')"

definition putStatus :: "string \<Rightarrow> string \<Rightarrow> string \<Rightarrow> request" where
  "putStatus sel stageId st =
     \<lparr>verb = PUT, url = baseUrl @ ''/projects/stage/'' @ sel @ ''/'' @ stageId,
      data = StatusData st\<rparr>"

definition handleChangeStageStatus ::
    "server \<Rightarrow> adminPanel \<Rightarrow> string \<Rightarrow> string \<Rightarrow> adminPanel \<times> event list" where
  "handleChangeStageStatus srv st stageId currentStatus =
     (case selectedProject st of
        Some sel \<Rightarrow>
          (if sel \<noteq> [] then
             (let r = putStatus sel stageId (newStatus currentStatus) in
              if resolves srv r then
                (let (st', late) = fetchStages_settle srv sel st
                 in (st', [Http r, Http (getStages sel)] @ late))
              else (st, [Http r, ConsoleError ''Error changing stage status:'']))
           else (st, []))
      | None \<Rightarrow> (st, []))"

definition deleteProject :: "string \<Rightarrow> request" where
  "deleteProject projectId =
     \<lparr>verb = DELETE, url = baseUrl @ ''/projects/'' @ projectId, data = NoData\<rparr>"

definition handleDeleteProject :: "server \<Rightarrow> adminPanel \<Rightarrow> string \<Rightarrow> adminPanel \<times> event list" where
  "handleDeleteProject srv st projectId =
     (if resolves srv (deleteProject projectId) then
        (let (st', late) = fetchProjects_settle srv st
         in (st', [Http (deleteProject projectId), Http getProjects,
                   Alert ''Success'' ''Deleted project successfully'' IconSuccess]
                  @ late))
      else (st, [Http (deleteProject projectId), ConsoleError ''Error deleting project:'']))"

definition deleteStage :: "string \<Rightarrow> int \<Rightarrow> request" where
  "deleteStage sel stageId =
     \<lparr>verb = DELETE,
      url = baseUrl @ ''/projects/stage/'' @ sel @ ''/'' @ numberToString stageId,
      data = NoData\<rparr>"

definition handleDeleteStage :: "server \<Rightarrow> adminPanel \<Rightarrow> int \<Rightarrow> adminPanel \<times> event list" where
  "handleDeleteStage srv st stageId =
     (case selectedProject st of
        Some sel \<Rightarrow>
          (if sel \<noteq> [] then
             (if resolves srv (deleteStage sel stageId) then
                (let (st', late) = fetchStages_settle srv sel st
                 in (st', [Http (deleteStage sel stageId), Http (getStages sel),
                           Alert ''Success'' ''Deleted stage successfully'' IconSuccess]
                          @ late))
              else (st, [Http (deleteStage sel stageId), ConsoleError ''Error deleting stage:'']))
           else (st, []))
      | None \<Rightarrow> (st, []))"

definition deleteDownload :: "int \<Rightarrow> request" where
  "deleteDownload downloadId =
     \<lparr>verb = DELETE, url = baseUrl @ ''/downloads/'' @ numberToString downloadId, data = NoData\<rparr>"

definition handleDeleteDownload :: "server \<Rightarrow> adminPanel \<Rightarrow> int \<Rightarrow> adminPanel \<times> event list" where
  "handleDeleteDownload srv st downloadId =
     (if resolves srv (deleteDownload downloadId) then
        (let (st', late) = fetchDownloads_settle srv st
         in (st', [Http (deleteDownload downloadId), Http getDownloads,
                   Alert ''Success'' ''Deleted download successfully'' IconSuccess]
                  @ late))
      else (st, [Http (deleteDownload downloadId), ConsoleError ''Error deleting download:'']))"

section \<open>The public stage view\<close>

text \<open>
  The props \<open>projectId\<close> and \<open>isAdmin\<close> are arguments; the component state is the
  list of stages. Each handler returns the stages afterwards and its effects.
\<close>

definition makeApiCall :: "server \<Rightarrow> int \<Rightarrow> string \<Rightarrow> int \<Rightarrow> event list" where
  "makeApiCall srv projectId status cardId =
     (let r = \<lparr>verb = PUT,
               url = baseUrl @ ''/projects/stage/'' @ numberToString projectId @ ''/''
                     @ numberToString cardId,
               data = StatusData status\<rparr>
      in if resolves srv r then [Http r] else [Http r, Unhandled])"

definition handleStatusChange ::
    "server \<Rightarrow> int \<Rightarrow> bool \<Rightarrow> stage list \<Rightarrow> int \<Rightarrow> string \<Rightarrow> stage list \<times> event list" where
  "handleStatusChange srv projectId isAdmin stgs stageId status =
     (if \<not> isAdmin then
        (stgs, [Alert ''Access Denied'' ''Only admins can change the status.'' IconWarning])
      else
        (let updatedStages =
               map (\<lambda>stage. if stage_id stage = stageId
                             then stage\<lparr>stage_status := status\<rparr> else stage) stgs
         in (updatedStages, makeApiCall srv projectId status stageId)))"

definition persistOrder :: "server \<Rightarrow> int \<Rightarrow> stage option list \<Rightarrow> event list" where
  "persistOrder srv projectId orderedStages =
     (let r = \<lparr>verb = PUT, url = baseUrl @ ''/reorder/'' @ numberToString projectId,
               data = ReorderData orderedStages\<rparr>
      in if resolves srv r then
           [Http r,
            Alert ''Order Updated'' ''The stages have been updated successfully!'' IconSuccess]
         else
           [Http r, ConsoleError ''Error updating stages:'',
            Alert ''Update Failed'' ''There was an error updating the stages.'' IconError])"

text \<open>
  The drop result of the drag-and-drop library: the index the item was picked up at and,
  when it was dropped on the list, the index it was dropped at.
\<close>

record dropResult =
  source_index :: int
  destination :: "int option"

text \<open>
  The array being reordered holds stages or \<open>undefined\<close> (\<open>None\<close>): a splice that
  removes nothing leaves \<open>movedStage\<close> undefined, and the second splice inserts it.
\<close>

definition reorder :: "stage list \<Rightarrow> int \<Rightarrow> int \<Rightarrow> stage option list" where
  "reorder stgs src dst =
     (let reorderedStages = map Some stgs;
          (removed, rest) = spliceArray reorderedStages src 1 [];
          movedStage = (case removed of [] \<Rightarrow> None | m # _ \<Rightarrow> m)
      in snd (spliceArray rest dst 0 [movedStage]))"

definition onDragEnd ::
    "server \<Rightarrow> int \<Rightarrow> bool \<Rightarrow> stage list \<Rightarrow> dropResult \<Rightarrow> stage list \<times> event list" where
  "onDragEnd srv projectId isAdmin stgs result =
     (case destination result of
        None \<Rightarrow> (stgs, [])
      | Some dst \<Rightarrow>
          (if \<not> isAdmin then
             (stgs, [Alert ''Access Denied'' ''Only admins can rearrange the stages.''
                       IconWarning])
           else (stgs, persistOrder srv projectId (reorder stgs (source_index result) dst))))"

text \<open>
  The effect run once when the view mounts: it stores the address of the page in
  \<open>localStorage\<close>, reads it back and replaces the current history entry with it.
\<close>

definition mountEffect ::
    "(string \<rightharpoonup> string) \<Rightarrow> string \<Rightarrow> (string \<rightharpoonup> string) \<times> event list" where
  "mountEffect localStorage href =
     (let localStorage' = localStorage(''lastPage'' \<mapsto> href);
          written = [StorageSet ''lastPage'' href]
      in case localStorage' ''lastPage'' of
           Some lastPage \<Rightarrow>
             (if lastPage \<noteq> [] then (localStorage', written @ [HistoryReplace lastPage])
              else (localStorage', written))
         | None \<Rightarrow> (localStorage', written))"

section \<open>What the specification says, in its own words\<close>

text \<open>
  The claim about reordering speaks of the list "with the element at source.index
  removed and re-inserted at destination.index". This definition follows those words;
  it is compared below with \<open>reorder\<close>, which follows the two splices of the code.
\<close>

definition removeAndReinsert :: "'a list \<Rightarrow> nat \<Rightarrow> nat \<Rightarrow> 'a list" where
  "removeAndReinsert xs s d =
     (let x = xs ! s;
          without = take s xs @ drop (Suc s) xs
      in take d without @ x # drop d without)"

text \<open>
  The endpoint shapes the specification lists for the remote API, with the verbs it
  allows on each. A parameter (\<open>:id\<close>, \<open>:projectId\<close>, \<open>:stageId\<close>) stands for
  one segment of the path: it is not empty and holds no slash. So no address has two
  shapes, and each shape keeps its own list of verbs.
\<close>

definition segment :: "string \<Rightarrow> bool" where
  "segment s = (s \<noteq> [] \<and> CHR ''/'' \<notin> set s)"

datatype endpoint =
    ProjectsEP
  | ProjectEP string
  | ProjectStagesEP string
  | ProjectStageEP string string
  | ReorderEP string
  | DownloadsEP
  | DownloadEP string

fun endpointPath :: "endpoint \<Rightarrow> string" where
  "endpointPath ProjectsEP = ''/projects''"
| "endpointPath (ProjectEP i) = ''/projects/'' @ i"
| "endpointPath (ProjectStagesEP p) = ''/projects/stage/'' @ p"
| "endpointPath (ProjectStageEP p s) = ''/projects/stage/'' @ p @ ''/'' @ s"
| "endpointPath (ReorderEP p) = ''/reorder/'' @ p"
| "endpointPath DownloadsEP = ''/downloads''"
| "endpointPath (DownloadEP i) = ''/downloads/'' @ i"

fun parameters :: "endpoint \<Rightarrow> string list" where
  "parameters ProjectsEP = []"
| "parameters (ProjectEP i) = [i]"
| "parameters (ProjectStagesEP p) = [p]"
| "parameters (ProjectStageEP p s) = [p, s]"
| "parameters (ReorderEP p) = [p]"
| "parameters DownloadsEP = []"
| "parameters (DownloadEP i) = [i]"

fun allowedVerb :: "endpoint \<Rightarrow> verb \<Rightarrow> bool" where
  "allowedVerb ProjectsEP v = (v = GET \<or> v = POST)"
| "allowedVerb (ProjectEP i) v = (v = GET \<or> v = DELETE)"
| "allowedVerb (ProjectStagesEP p) v = (v = POST)"
| "allowedVerb (ProjectStageEP p s) v = (v = PUT \<or> v = DELETE)"
| "allowedVerb (ReorderEP p) v = (v = PUT)"
| "allowedVerb DownloadsEP v = (v = GET \<or> v = POST)"
| "allowedVerb (DownloadEP i) v = (v = DELETE)"

definition specRequest :: "request \<Rightarrow> bool" where
  "specRequest r =
     (\<exists>e. url r = ''https://app-back-99ll.onrender.com'' @ endpointPath e
          \<and> list_all segment (parameters e)
          \<and> allowedVerb e (verb r))"

section \<open>Concrete inputs\<close>

text \<open>
  A fold to run \<open>handleAddProject\<close> on concrete names: lower-casing of the letters A
  to Z. On names written in ASCII, as all names below are, it is what the built-in
  does.
\<close>

definition lowerChar :: "char \<Rightarrow> char" where
  "lowerChar c =
     (let n = (of_char c :: nat) in if 65 \<le> n \<and> n \<le> 90 then char_of (n + 32) else c)"

definition asciiLowerCase :: "string \<Rightarrow> string" where
  "asciiLowerCase s = map lowerChar s"

text \<open>
  A second fold, for a name outside ASCII: it also lower-cases the accented capitals
  of Latin-1 in their two-byte form (byte 195, then a byte from 128 to 158 other than
  151, the multiplication sign).
\<close>

fun latinLowerCase :: "string \<Rightarrow> string" where
  "latinLowerCase [] = []"
| "latinLowerCase [c] = [lowerChar c]"
| "latinLowerCase (c # d # cs) =
     (if c = CHR 0xC3 \<and> 128 \<le> (of_char d :: nat) \<and> (of_char d :: nat) \<le> 158
         \<and> (of_char d :: nat) \<noteq> 151
      then c # char_of ((of_char d :: nat) + 32) # latinLowerCase cs
      else lowerChar c # latinLowerCase (d # cs))"

definition stageA :: stage where
  "stageA = \<lparr>stage_id = 1, stage_name = ''Design'', stage_status = ''completed'', stage_order = 0\<rparr>"

definition stageB :: stage where
  "stageB = \<lparr>stage_id = 2, stage_name = ''Build'', stage_status = ''ongoing'', stage_order = 1\<rparr>"

definition stageC :: stage where
  "stageC = \<lparr>stage_id = 3, stage_name = ''Ship'', stage_status = ''incomplete'', stage_order = 2\<rparr>"

definition sampleStages :: "stage list" where
  "sampleStages = [stageA, stageB, stageC]"

definition alpha :: project where
  "alpha = \<lparr>project_projectId = ''p1'', project_projectName = ''Alpha''\<rparr>"

definition manual :: download where
  "manual = \<lparr>download_id = 7, download_name = ''Manual'',
             download_description = ''User manual'', download_url = ''https://example.org/m.pdf''\<rparr>"

definition always :: "request \<Rightarrow> bool" where
  "always r = True"

definition never :: "request \<Rightarrow> bool" where
  "never r = False"

definition stagesOfP1 :: "string \<Rightarrow> stage list option" where
  "stagesOfP1 sel = (if sel = ''p1'' then Some sampleStages else None)"

text \<open>A server that answers every request, and one that answers none.\<close>

definition onlineServer :: server where
  "onlineServer = \<lparr>resolves = always, projectsData = [alpha], downloadsData = [manual],
                   stagesData = stagesOfP1\<rparr>"

definition offlineServer :: server where
  "offlineServer = \<lparr>resolves = never, projectsData = [], downloadsData = [],
                    stagesData = stagesOfP1\<rparr>"

text \<open>The admin panel as \<open>useState\<close> initialises it, and with its forms filled in.\<close>

definition emptyPanel :: adminPanel where
  "emptyPanel = \<lparr>projects = [], stages = [], downloads = [], projectName = [],
                 stageName = [], downloadName = [], downloadDescription = [],
                 downloadUrl = [], selectedProject = None\<rparr>"

definition filledPanel :: adminPanel where
  "filledPanel = \<lparr>projects = [alpha], stages = [stageA], downloads = [],
                  projectName = ''Beta'', stageName = ''Test'', downloadName = ''Manual'',
                  downloadDescription = ''User manual'',
                  downloadUrl = ''https://example.org/m.pdf'', selectedProject = Some ''p1''\<rparr>"

definition duplicatePanel :: adminPanel where
  "duplicatePanel = filledPanel\<lparr>projectName := ''ALPHA''\<rparr>"

text \<open>A fetched project named \<open>Aerger\<close> with A-umlaut, and the same name entered with a-umlaut.\<close>

definition upperAerger :: string where
  "upperAerger = CHR 0xC3 # CHR 0x84 # ''rger''"

definition lowerAerger :: string where
  "lowerAerger = CHR 0xC3 # CHR 0xA4 # ''rger''"

definition aerger :: project where
  "aerger = \<lparr>project_projectId = ''p2'', project_projectName = upperAerger\<rparr>"

definition umlautPanel :: adminPanel where
  "umlautPanel = filledPanel\<lparr>projects := [aerger], projectName := lowerAerger\<rparr>"

definition emptyStorage :: "string \<rightharpoonup> string" where
  "emptyStorage = Map.empty"

definition dropNowhere :: dropResult where
  "dropNowhere = \<lparr>source_index = 0, destination = None\<rparr>"

section \<open>Helper facts\<close>

lemma lower_samples:
  "asciiLowerCase ''ALPHA'' = ''alpha''"
  "asciiLowerCase ''Alpha'' = ''alpha''"
  "asciiLowerCase ''Beta'' = ''beta''"
  by code_simp+

lemma latin_sample:
  "latinLowerCase upperAerger = latinLowerCase lowerAerger"
  "upperAerger \<noteq> lowerAerger"
  "lowerAerger \<noteq> []"
  by code_simp+

lemma find_duplicate:
  assumes "\<exists>p \<in> set ps. f (project_projectName p) = f n"
  shows "\<exists>q. find (\<lambda>p. f (project_projectName p) = f n) ps = Some q"
  using assms by (cases "find (\<lambda>p. f (project_projectName p) = f n) ps") (auto simp: find_None_iff)

lemma find_fresh:
  assumes "\<forall>p \<in> set ps. f (project_projectName p) \<noteq> f n"
  shows "find (\<lambda>p. f (project_projectName p) = f n) ps = None"
  using assms by (simp add: find_None_iff)

section \<open>Adding a project\<close>

text \<open>
  C1. Whenever the entered name equals, after lower-casing both, the name of a project
  in the fetched list, \<open>handleAddProject\<close> rejects: the component state is returned as
  it was (so the projects list is unchanged), no request is issued, and the only effect
  is one error dialog. The dialog is the duplicate-name one, except that an empty name
  that matches an empty project name gets the missing-name dialog. The comparison is
  the one the handler makes, with the lower-casing function it is given, so this holds
  for the built-in and for names in any script.
\<close>

theorem handleAddProject_rejects_duplicate:
  assumes "\<exists>p \<in> set (projects st).
             toLowerCase (project_projectName p) = toLowerCase (projectName st)"
  shows "fst (handleAddProject toLowerCase srv st) = st
       \<and> requestsOf (snd (handleAddProject toLowerCase srv st)) = []
       \<and> snd (handleAddProject toLowerCase srv st) =
           [Alert ''Error''
              (if projectName st = [] then ''Please provide a project name.''
               else ''Project name already exists. Please choose a different name.'')
              IconError]"
proof -
  from find_duplicate [OF assms] obtain q where
    q: "find (\<lambda>p. toLowerCase (project_projectName p) = toLowerCase (projectName st))
          (projects st) = Some q" ..
  show ?thesis
    by (cases "projectName st = []") (simp_all add: handleAddProject_def q)
qed

theorem handleAddProject_rejects_duplicate_witness:
  "fst (handleAddProject asciiLowerCase onlineServer duplicatePanel) = duplicatePanel
   \<and> requestsOf (snd (handleAddProject asciiLowerCase onlineServer duplicatePanel)) = []
   \<and> snd (handleAddProject asciiLowerCase onlineServer duplicatePanel) =
       [Alert ''Error'' ''Project name already exists. Please choose a different name.''
          IconError]
   \<and> fst (handleAddProject latinLowerCase onlineServer umlautPanel) = umlautPanel
   \<and> snd (handleAddProject latinLowerCase onlineServer umlautPanel) =
       [Alert ''Error'' ''Project name already exists. Please choose a different name.''
          IconError]"
proof -
  have dup: "\<exists>p \<in> set (projects duplicatePanel).
               asciiLowerCase (project_projectName p) = asciiLowerCase (projectName duplicatePanel)"
    by (simp add: duplicatePanel_def filledPanel_def alpha_def lower_samples)
  have name: "projectName duplicatePanel \<noteq> []"
    by (simp add: duplicatePanel_def filledPanel_def)
  have umlaut: "\<exists>p \<in> set (projects umlautPanel).
               latinLowerCase (project_projectName p) = latinLowerCase (projectName umlautPanel)"
    by (simp add: umlautPanel_def filledPanel_def aerger_def latin_sample)
  have entered: "projectName umlautPanel \<noteq> []"
    by (simp add: umlautPanel_def filledPanel_def latin_sample)
  show ?thesis
    using handleAddProject_rejects_duplicate [OF dup, where srv = onlineServer]
      handleAddProject_rejects_duplicate [OF umlaut, where srv = onlineServer] name entered
    by simp
qed

text \<open>
  C2. With an empty name \<open>handleAddProject\<close> changes nothing and its only effect is the
  dialog that asks for a project name (so no request is made). With a name that is not
  empty and matches no fetched project, the first request it issues is the POST to
  \<open>/projects\<close>, carrying the name and the current stages. To match is to be equal
  after the lower-casing the handler is given, whatever letters that folds.
\<close>

theorem handleAddProject_empty_or_posts:
  "(projectName st = [] \<longrightarrow>
      handleAddProject toLowerCase srv st =
        (st, [Alert ''Error'' ''Please provide a project name.'' IconError]))
   \<and> (projectName st \<noteq> []
        \<and> (\<forall>p \<in> set (projects st).
              toLowerCase (project_projectName p) \<noteq> toLowerCase (projectName st)) \<longrightarrow>
      take 1 (requestsOf (snd (handleAddProject toLowerCase srv st))) =
        [\<lparr>verb = POST, url = ''https://app-back-99ll.onrender.com/projects'',
          data = ProjectData (projectName st) (stages st)\<rparr>])"
proof (intro conjI impI)
  assume "projectName st = []"
  then show "handleAddProject toLowerCase srv st =
        (st, [Alert ''Error'' ''Please provide a project name.'' IconError])"
    by (simp add: handleAddProject_def)
next
  assume a: "projectName st \<noteq> []
        \<and> (\<forall>p \<in> set (projects st).
              toLowerCase (project_projectName p) \<noteq> toLowerCase (projectName st))"
  then have f: "find (\<lambda>p. toLowerCase (project_projectName p) = toLowerCase (projectName st))
          (projects st) = None"
    by (simp add: find_fresh)
  from a show "take 1 (requestsOf (snd (handleAddProject toLowerCase srv st))) =
        [\<lparr>verb = POST, url = ''https://app-back-99ll.onrender.com/projects'',
          data = ProjectData (projectName st) (stages st)\<rparr>]"
    by (simp add: handleAddProject_def f postProject_def baseUrl_def split: prod.splits)
qed

theorem handleAddProject_empty_or_posts_witness:
  "handleAddProject asciiLowerCase onlineServer emptyPanel =
     (emptyPanel, [Alert ''Error'' ''Please provide a project name.'' IconError])
   \<and> take 1 (requestsOf (snd (handleAddProject asciiLowerCase offlineServer filledPanel))) =
       [\<lparr>verb = POST, url = ''https://app-back-99ll.onrender.com/projects'',
         data = ProjectData ''Beta'' [stageA]\<rparr>]"
proof -
  have e: "projectName emptyPanel = []"
    by (simp add: emptyPanel_def)
  have n: "projectName filledPanel \<noteq> []
        \<and> (\<forall>p \<in> set (projects filledPanel).
              asciiLowerCase (project_projectName p) \<noteq> asciiLowerCase (projectName filledPanel))"
    by (simp add: filledPanel_def alpha_def lower_samples)
  have v: "projectName filledPanel = ''Beta''" "stages filledPanel = [stageA]"
    by (simp_all add: filledPanel_def)
  show ?thesis
    using handleAddProject_empty_or_posts
        [where st = emptyPanel and srv = onlineServer and toLowerCase = asciiLowerCase]
      handleAddProject_empty_or_posts
        [where st = filledPanel and srv = offlineServer and toLowerCase = asciiLowerCase]
      e n v
    by simp
qed

section \<open>The status toggle of the admin panel\<close>

text \<open>
  C9. The status that \<open>handleChangeStageStatus\<close> sends is a fixed function of the
  current one: ongoing gives completed, completed gives incomplete, and every other
  string (incomplete among them) gives ongoing. Three steps from any of the three valid
  statuses come back to it. With a project selected, the first request of the handler
  is the PUT that carries this next status.
\<close>

theorem newStatus_cycle:
  "newStatus ''ongoing'' = ''completed''
   \<and> newStatus ''completed'' = ''incomplete''
   \<and> newStatus ''incomplete'' = ''ongoing''
   \<and> (s \<noteq> ''ongoing'' \<and> s \<noteq> ''completed'' \<longrightarrow> newStatus s = ''ongoing'')
   \<and> (s \<in> {''ongoing'', ''completed'', ''incomplete''} \<longrightarrow>
        newStatus (newStatus (newStatus s)) = s)
   \<and> (selectedProject st = Some sel \<and> sel \<noteq> [] \<longrightarrow>
        take 1 (requestsOf (snd (handleChangeStageStatus srv st stageId s))) =
          [\<lparr>verb = PUT,
            url = ''https://app-back-99ll.onrender.com/projects/stage/'' @ sel @ ''/'' @ stageId,
            data = StatusData (newStatus s)\<rparr>])"
proof -
  have three: "newStatus ''ongoing'' = ''completed''"
      "newStatus ''completed'' = ''incomplete''"
      "newStatus ''incomplete'' = ''ongoing''"
    by (simp_all add: newStatus_def)
  have other: "s \<noteq> ''ongoing'' \<and> s \<noteq> ''completed'' \<longrightarrow> newStatus s = ''ongoing''"
    by (simp add: newStatus_def)
  have cycle: "s \<in> {''ongoing'', ''completed'', ''incomplete''} \<longrightarrow>
        newStatus (newStatus (newStatus s)) = s"
    using three by auto
  have put: "selectedProject st = Some sel \<and> sel \<noteq> [] \<longrightarrow>
        take 1 (requestsOf (snd (handleChangeStageStatus srv st stageId s))) =
          [\<lparr>verb = PUT,
            url = ''https://app-back-99ll.onrender.com/projects/stage/'' @ sel @ ''/'' @ stageId,
            data = StatusData (newStatus s)\<rparr>]"
    by (simp add: handleChangeStageStatus_def putStatus_def baseUrl_def Let_def
        split: prod.splits)
  from three other cycle put show ?thesis by blast
qed

theorem newStatus_cycle_witness:
  "newStatus ''pending'' = ''ongoing''
   \<and> newStatus (newStatus (newStatus ''completed'')) = ''completed''
   \<and> take 1 (requestsOf (snd (handleChangeStageStatus offlineServer filledPanel ''2'' ''ongoing''))) =
       [\<lparr>verb = PUT, url = ''https://app-back-99ll.onrender.com/projects/stage/p1/2'',
         data = StatusData ''completed''\<rparr>]"
proof -
  have sel: "selectedProject filledPanel = Some ''p1'' \<and> ''p1'' \<noteq> []"
    by (simp add: filledPanel_def)
  show ?thesis
    using newStatus_cycle [of "''pending''" filledPanel "''p1''" offlineServer "''2''"]
      newStatus_cycle [of "''completed''" filledPanel "''p1''" offlineServer "''2''"]
      newStatus_cycle [of "''ongoing''" filledPanel "''p1''" offlineServer "''2''"] sel
    by simp
qed

section \<open>Editing and reordering in the public stage view\<close>

text \<open>
  C10. An admin status edit maps over the stages: the list keeps its length and the
  order of its stages, the stage at each position is the old one with only its status
  replaced when its id is the target and is the old one otherwise, and when no stage
  has the target id the list is the old list.
\<close>

theorem handleStatusChange_frame:
  "length (fst (handleStatusChange srv projectId True stgs stageId s)) = length stgs
   \<and> (\<forall>i < length stgs.
         fst (handleStatusChange srv projectId True stgs stageId s) ! i =
           (if stage_id (stgs ! i) = stageId then (stgs ! i)\<lparr>stage_status := s\<rparr>
            else stgs ! i))
   \<and> map stage_id (fst (handleStatusChange srv projectId True stgs stageId s)) =
       map stage_id stgs
   \<and> ((\<forall>x \<in> set stgs. stage_id x \<noteq> stageId) \<longrightarrow>
         fst (handleStatusChange srv projectId True stgs stageId s) = stgs)"
proof -
  let ?f = "\<lambda>stage. if stage_id stage = stageId then stage\<lparr>stage_status := s\<rparr> else stage"
  have upd: "fst (handleStatusChange srv projectId True stgs stageId s) = map ?f stgs"
    by (simp add: handleStatusChange_def)
  have ids: "map stage_id (map ?f stgs) = map stage_id stgs"
    by (induction stgs) simp_all
  have same: "(\<forall>x \<in> set stgs. stage_id x \<noteq> stageId) \<longrightarrow> map ?f stgs = stgs"
    by (induction stgs) simp_all
  show ?thesis
    unfolding upd using ids same by simp
qed

theorem handleStatusChange_frame_witness:
  "fst (handleStatusChange onlineServer 1 True sampleStages 2 ''completed'') =
     [stageA, stageB\<lparr>stage_status := ''completed''\<rparr>, stageC]
   \<and> fst (handleStatusChange onlineServer 1 True sampleStages 9 ''completed'') = sampleStages"
proof -
  have len: "length sampleStages = 3"
    by (simp add: sampleStages_def)
  have absent: "\<forall>x \<in> set sampleStages. stage_id x \<noteq> 9"
    by (simp add: sampleStages_def stageA_def stageB_def stageC_def)
  have elems: "sampleStages ! 0 = stageA" "sampleStages ! 1 = stageB" "sampleStages ! 2 = stageC"
      "stage_id stageA = 1" "stage_id stageB = 2" "stage_id stageC = 3"
    by (simp_all add: sampleStages_def stageA_def stageB_def stageC_def)
  let ?r = "fst (handleStatusChange onlineServer 1 True sampleStages 2 ''completed'')"
  from handleStatusChange_frame [of onlineServer 1 sampleStages 2 "''completed''"]
  have l: "length ?r = 3" and
    n: "\<forall>i < 3. ?r ! i = (if stage_id (sampleStages ! i) = 2
            then (sampleStages ! i)\<lparr>stage_status := ''completed''\<rparr> else sampleStages ! i)"
    using len by simp_all
  have "?r ! 0 = stageA" "?r ! 1 = stageB\<lparr>stage_status := ''completed''\<rparr>" "?r ! 2 = stageC"
    using n elems by simp_all
  with l have first: "?r = [stageA, stageB\<lparr>stage_status := ''completed''\<rparr>, stageC]"
    by (auto simp: list_eq_iff_nth_eq less_Suc_eq numeral_3_eq_3 numeral_2_eq_2)
  show ?thesis
    using first handleStatusChange_frame [of onlineServer 1 sampleStages 9 "''completed''"] absent
    by simp
qed

text \<open>
  C3, as the code has it. Without admin rights a status edit, and a drag that was
  dropped on the list, show the Access Denied dialog, leave the stages as they were and
  issue no request. With admin rights each issues its PUT request and no other. A drag
  that was not dropped on the list returns before the admin check: it does nothing at
  all, for admins and for everyone else.
\<close>

theorem access_control:
  "handleStatusChange srv projectId False stgs stageId s =
     (stgs, [Alert ''Access Denied'' ''Only admins can change the status.'' IconWarning])
   \<and> onDragEnd srv projectId False stgs \<lparr>source_index = i, destination = Some j\<rparr> =
       (stgs, [Alert ''Access Denied'' ''Only admins can rearrange the stages.'' IconWarning])
   \<and> requestsOf (snd (handleStatusChange srv projectId True stgs stageId s)) =
       [\<lparr>verb = PUT,
         url = ''https://app-back-99ll.onrender.com/projects/stage/''
               @ numberToString projectId @ ''/'' @ numberToString stageId,
         data = StatusData s\<rparr>]
   \<and> requestsOf (snd (onDragEnd srv projectId True stgs
                         \<lparr>source_index = i, destination = Some j\<rparr>)) =
       [\<lparr>verb = PUT,
         url = ''https://app-back-99ll.onrender.com/reorder/'' @ numberToString projectId,
         data = ReorderData (reorder stgs i j)\<rparr>]
   \<and> onDragEnd srv projectId isAdmin stgs \<lparr>source_index = i, destination = None\<rparr> = (stgs, [])"
  by (simp add: handleStatusChange_def onDragEnd_def makeApiCall_def persistOrder_def
      baseUrl_def Let_def)

text \<open>
  The claim as it was written promises the Access Denied dialog for every drag of a
  visitor and the PUT request for every drag of an admin. A drag with no destination
  shows no dialog to the visitor and sends no request for the admin.
\<close>

theorem access_denied_needs_destination:
  "alertsOf (snd (onDragEnd onlineServer 1 False sampleStages dropNowhere)) = []
   \<and> requestsOf (snd (onDragEnd onlineServer 1 True sampleStages dropNowhere)) = []"
  by (simp add: onDragEnd_def dropNowhere_def)

subsection \<open>Reordering by two splices\<close>

lemma splice_remove_one:
  assumes "0 \<le> s" "s < int (length xs)"
  shows "spliceArray xs s 1 [] = ([xs ! nat s], take (nat s) xs @ drop (Suc (nat s)) xs)"
proof -
  from assms have n: "nat s < length xs" by linarith
  have sel: "nat (min s (int (length xs))) = nat s"
    using assms by simp
  have cnt: "nat (min 1 (int (length xs) - min s (int (length xs)))) = 1"
    using assms by simp
  have one: "take (Suc 0) (drop (nat s) xs) = [xs ! nat s]"
    using n by (simp add: Cons_nth_drop_Suc [symmetric])
  show ?thesis
    using assms by (simp add: spliceArray_def Let_def sel cnt one)
qed

lemma splice_insert_one:
  "\<exists>k. snd (spliceArray ys d 0 [x]) = take k ys @ x # drop k ys"
  by (auto simp: spliceArray_def Let_def)

lemma splice_insert_at:
  assumes "0 \<le> d" "d \<le> int (length ys)"
  shows "snd (spliceArray ys d 0 [x]) = take (nat d) ys @ x # drop (nat d) ys"
  using assms by (simp add: spliceArray_def Let_def min_def)

lemma reorder_in_range:
  assumes "0 \<le> s" "s < int (length stgs)"
  shows "reorder stgs s d =
           snd (spliceArray (take (nat s) (map Some stgs) @ drop (Suc (nat s)) (map Some stgs)) d 0
                  [Some (stgs ! nat s)])"
proof -
  from assms have n: "nat s < length stgs" by linarith
  have "spliceArray (map Some stgs) s 1 [] =
          ([map Some stgs ! nat s],
           take (nat s) (map Some stgs) @ drop (Suc (nat s)) (map Some stgs))"
    using assms by (intro splice_remove_one) simp_all
  then show ?thesis
    using n by (simp add: reorder_def)
qed

lemma mset_without:
  assumes "n < length xs"
  shows "mset (take n xs @ drop (Suc n) xs) + {#xs ! n#} = mset xs"
proof -
  have "xs = take n xs @ xs ! n # drop (Suc n) xs"
    using assms by (simp add: id_take_nth_drop)
  then have "mset xs = mset (take n xs @ xs ! n # drop (Suc n) xs)"
    by simp
  then show ?thesis by simp
qed

lemma reorder_mset:
  assumes "0 \<le> s" "s < int (length stgs)"
  shows "mset (reorder stgs s d) = mset (map Some stgs)"
proof -
  from assms have n: "nat s < length (map Some stgs)" by simp
  let ?rest = "take (nat s) (map Some stgs) @ drop (Suc (nat s)) (map Some stgs)"
  obtain k where k: "snd (spliceArray ?rest d 0 [Some (stgs ! nat s)]) =
      take k ?rest @ Some (stgs ! nat s) # drop k ?rest"
    using splice_insert_one [of ?rest d "Some (stgs ! nat s)"] by (elim exE)
  have whole: "mset (take k ?rest @ drop k ?rest) = mset ?rest"
    by (simp only: append_take_drop_id)
  have "mset (reorder stgs s d) = mset (take k ?rest @ drop k ?rest) + {#Some (stgs ! nat s)#}"
    unfolding reorder_in_range [OF assms] k by simp
  also have "\<dots> = mset ?rest + {#map Some stgs ! nat s#}"
    unfolding whole using n by simp
  also have "\<dots> = mset (map Some stgs)"
    using n by (rule mset_without)
  finally show ?thesis .
qed

lemma reorder_spec:
  assumes "0 \<le> s" "s < int (length stgs)" "0 \<le> d" "d < int (length stgs)"
  shows "reorder stgs s d = map Some (removeAndReinsert stgs (nat s) (nat d))"
proof -
  from assms have n: "nat s < length stgs" by linarith
  let ?rest = "take (nat s) (map Some stgs) @ drop (Suc (nat s)) (map Some stgs)"
  have len: "int (length ?rest) = int (length stgs) - 1"
    using n by simp
  have "snd (spliceArray ?rest d 0 [Some (stgs ! nat s)]) =
          take (nat d) ?rest @ Some (stgs ! nat s) # drop (nat d) ?rest"
    using assms len by (intro splice_insert_at) linarith+
  then show ?thesis
    unfolding reorder_in_range [OF assms(1,2)]
    by (simp add: removeAndReinsert_def Let_def take_map drop_map)
qed

lemma removeAndReinsert_nth:
  assumes "s < length xs" "d < length xs"
  shows "removeAndReinsert xs s d ! d = xs ! s"
proof -
  have "length (take d (take s xs @ drop (Suc s) xs)) = d"
    using assms by simp
  then show ?thesis
    unfolding removeAndReinsert_def Let_def by (metis nth_append_length)
qed

lemma removeAndReinsert_same:
  assumes "s < length xs"
  shows "removeAndReinsert xs s s = xs"
proof -
  have "take s (take s xs @ drop (Suc s) xs) = take s xs"
    using assms by simp
  moreover have "drop s (take s xs @ drop (Suc s) xs) = drop (Suc s) xs"
    using assms by simp
  ultimately show ?thesis
    using assms by (simp add: removeAndReinsert_def Let_def id_take_nth_drop [symmetric])
qed

text \<open>
  C4. A drag is picked up at the position of a rendered stage, so its source index is
  a position of the list. For an admin's drag with a destination the handler sends the
  list computed by the two splices and leaves its own state as it was. That list is a
  permutation of the stages (same multiset, same length) wherever it was dropped. When
  the destination is a position of the list too, it is the list with the stage at the
  source removed and put back in at the destination, where it then stands. When source
  and destination agree it is the original list. A drag with no destination does
  nothing.
\<close>

theorem onDragEnd_reorders:
  assumes "0 \<le> src" "src < int (length stgs)"
  shows "onDragEnd srv projectId True stgs \<lparr>source_index = src, destination = Some dst\<rparr> =
           (stgs, persistOrder srv projectId (reorder stgs src dst))
       \<and> mset (reorder stgs src dst) = mset (map Some stgs)
       \<and> length (reorder stgs src dst) = length stgs
       \<and> (0 \<le> dst \<and> dst < int (length stgs) \<longrightarrow>
            reorder stgs src dst = map Some (removeAndReinsert stgs (nat src) (nat dst))
            \<and> reorder stgs src dst ! nat dst = Some (stgs ! nat src))
       \<and> (dst = src \<longrightarrow> reorder stgs src dst = map Some stgs)
       \<and> onDragEnd srv projectId isAdmin stgs \<lparr>source_index = src, destination = None\<rparr> =
           (stgs, [])"
proof -
  from assms have n: "nat src < length stgs" by linarith
  have run: "onDragEnd srv projectId True stgs \<lparr>source_index = src, destination = Some dst\<rparr> =
           (stgs, persistOrder srv projectId (reorder stgs src dst))"
    by (simp add: onDragEnd_def)
  have perm: "mset (reorder stgs src dst) = mset (map Some stgs)"
    using assms by (rule reorder_mset)
  have "size (mset (reorder stgs src dst)) = size (mset (map Some stgs))"
    using perm by simp
  then have len: "length (reorder stgs src dst) = length stgs"
    by simp
  have exact: "0 \<le> dst \<and> dst < int (length stgs) \<longrightarrow>
            reorder stgs src dst = map Some (removeAndReinsert stgs (nat src) (nat dst))
            \<and> reorder stgs src dst ! nat dst = Some (stgs ! nat src)"
  proof
    assume d: "0 \<le> dst \<and> dst < int (length stgs)"
    then have m: "nat dst < length stgs" by linarith
    have eq: "reorder stgs src dst = map Some (removeAndReinsert stgs (nat src) (nat dst))"
      using assms d by (simp add: reorder_spec)
    have "length (removeAndReinsert stgs (nat src) (nat dst)) = length stgs"
      using len eq by (metis length_map)
    then have "reorder stgs src dst ! nat dst = Some (removeAndReinsert stgs (nat src) (nat dst) ! nat dst)"
      using eq m by simp
    with eq show "reorder stgs src dst = map Some (removeAndReinsert stgs (nat src) (nat dst))
            \<and> reorder stgs src dst ! nat dst = Some (stgs ! nat src)"
      using removeAndReinsert_nth [OF n m] by simp
  qed
  have same: "dst = src \<longrightarrow> reorder stgs src dst = map Some stgs"
    using assms n by (auto simp: reorder_spec removeAndReinsert_same)
  have none: "onDragEnd srv projectId isAdmin stgs \<lparr>source_index = src, destination = None\<rparr> =
           (stgs, [])"
    by (simp add: onDragEnd_def)
  from run perm len exact same none show ?thesis by blast
qed

theorem onDragEnd_reorders_witness:
  "onDragEnd onlineServer 1 True sampleStages \<lparr>source_index = 0, destination = Some 2\<rparr> =
     (sampleStages, persistOrder onlineServer 1 [Some stageB, Some stageC, Some stageA])
   \<and> mset (reorder sampleStages 0 2) = mset (map Some sampleStages)
   \<and> length (reorder sampleStages 0 2) = 3
   \<and> reorder sampleStages 0 2 ! 2 = Some stageA
   \<and> reorder sampleStages 1 1 = map Some sampleStages
   \<and> onDragEnd onlineServer 1 False sampleStages \<lparr>source_index = 0, destination = None\<rparr> =
       (sampleStages, [])"
proof -
  have len: "length sampleStages = 3"
    by (simp add: sampleStages_def)
  have src0: "(0::int) \<le> 0" "(0::int) < int (length sampleStages)"
    and src1: "(0::int) \<le> 1" "(1::int) < int (length sampleStages)"
    and dst2: "(0::int) \<le> 2 \<and> (2::int) < int (length sampleStages)"
    by (simp_all add: len)
  have moved: "removeAndReinsert sampleStages (nat 0) (nat 2) = [stageB, stageC, stageA]"
    by (simp add: removeAndReinsert_def sampleStages_def)
  note drag = onDragEnd_reorders [OF src0, of onlineServer 1 2 False]
  note still = onDragEnd_reorders [OF src1, of onlineServer 1 1 False]
  from drag dst2 have "reorder sampleStages 0 2 =
      map Some (removeAndReinsert sampleStages (nat 0) (nat 2))"
    by blast
  then have order: "reorder sampleStages 0 2 = [Some stageB, Some stageC, Some stageA]"
    unfolding moved by simp
  from drag have c1: "onDragEnd onlineServer 1 True sampleStages
        \<lparr>source_index = 0, destination = Some 2\<rparr> =
      (sampleStages, persistOrder onlineServer 1 [Some stageB, Some stageC, Some stageA])"
    unfolding order by blast
  from drag have c2: "mset (reorder sampleStages 0 2) = mset (map Some sampleStages)"
    by blast
  from drag have c3: "length (reorder sampleStages 0 2) = 3"
    unfolding len by blast
  have c4: "reorder sampleStages 0 2 ! 2 = Some stageA"
    unfolding order by simp
  from still have c5: "reorder sampleStages 1 1 = map Some sampleStages"
    by blast
  from drag have c6: "onDragEnd onlineServer 1 False sampleStages
        \<lparr>source_index = 0, destination = None\<rparr> = (sampleStages, [])"
    by blast
  from c1 c2 c3 c4 c5 c6 show ?thesis
    by (intro conjI)
qed

section \<open>The admin panel, case by case\<close>

text \<open>
  What each handler of the admin panel returns once its guards are passed, by whether
  its request and the re-fetch after it resolve.
\<close>

lemmas request_defs =
  getProjects_def getDownloads_def getStages_def postProject_def postStage_def
  postDownload_def putStatus_def deleteProject_def deleteStage_def deleteDownload_def

lemma fetchStages_ready:
  assumes "selectedProject st = Some sel" "sel \<noteq> []"
  shows "fetchStages srv st =
     (if resolves srv (getStages sel)
      then (st\<lparr>stages := (case stagesData srv sel of Some ss \<Rightarrow> ss | None \<Rightarrow> [])\<rparr>,
            [Http (getStages sel)])
      else (st, [Http (getStages sel), ConsoleError ''Error fetching stages:'']))"
  using assms by (simp add: fetchStages_def fetchStages_settle_def)

lemma handleAddProject_fresh:
  assumes "projectName st \<noteq> []"
    and "\<forall>p \<in> set (projects st).
           toLowerCase (project_projectName p) \<noteq> toLowerCase (projectName st)"
  shows "handleAddProject toLowerCase srv st =
     (if resolves srv (postProject st) then
        (if resolves srv getProjects
         then (st\<lparr>projectName := [], stages := [], projects := projectsData srv\<rparr>,
               [Http (postProject st), Http getProjects,
                Alert ''Success'' ''Project added successfully!'' IconSuccess])
         else (st\<lparr>projectName := [], stages := []\<rparr>,
               [Http (postProject st), Http getProjects,
                Alert ''Success'' ''Project added successfully!'' IconSuccess,
                ConsoleError ''Error fetching projects:'']))
      else
        (st, [Http (postProject st), ConsoleError ''Error adding project:'',
              Alert ''Error'' ''Error adding project. Please try again.'' IconError]))"
  using assms by (simp add: handleAddProject_def find_fresh fetchProjects_settle_def)

lemma handleAddStage_ready:
  assumes "selectedProject st = Some sel" "sel \<noteq> []" "stageName st \<noteq> []"
  shows "handleAddStage srv st =
     (if resolves srv (postStage sel st) then
        (if resolves srv (getStages sel)
         then (st\<lparr>stageName := [],
                  stages := (case stagesData srv sel of Some ss \<Rightarrow> ss | None \<Rightarrow> [])\<rparr>,
               [Http (postStage sel st), Http (getStages sel),
                Alert ''Success'' ''Stage added successfully!'' IconSuccess])
         else (st\<lparr>stageName := []\<rparr>,
               [Http (postStage sel st), Http (getStages sel),
                Alert ''Success'' ''Stage added successfully!'' IconSuccess,
                ConsoleError ''Error fetching stages:'']))
      else
        (st, [Http (postStage sel st), ConsoleError ''Error adding stage:'',
              Alert ''Error'' ''Error adding stage. Please try again.'' IconError]))"
  using assms by (simp add: handleAddStage_def fetchStages_settle_def)

lemma handleAddDownload_ready:
  assumes "downloadName st \<noteq> []" "downloadDescription st \<noteq> []" "downloadUrl st \<noteq> []"
  shows "handleAddDownload srv st =
     (if resolves srv (postDownload st) then
        (if resolves srv getDownloads
         then (st\<lparr>downloadName := [], downloadDescription := [], downloadUrl := [],
                  downloads := downloadsData srv\<rparr>,
               [Http (postDownload st), Http getDownloads,
                Alert ''Success'' ''Download added successfully!'' IconSuccess])
         else (st\<lparr>downloadName := [], downloadDescription := [], downloadUrl := []\<rparr>,
               [Http (postDownload st), Http getDownloads,
                Alert ''Success'' ''Download added successfully!'' IconSuccess,
                ConsoleError ''Error fetching downloads:'']))
      else
        (st, [Http (postDownload st), ConsoleError ''Error adding download:'',
              Alert ''Error'' ''Error adding download. Please try again.'' IconError]))"
  using assms by (simp add: handleAddDownload_def fetchDownloads_settle_def)

lemma handleDeleteProject_result:
  "handleDeleteProject srv st projectId =
     (if resolves srv (deleteProject projectId) then
        (if resolves srv getProjects
         then (st\<lparr>projects := projectsData srv\<rparr>,
               [Http (deleteProject projectId), Http getProjects,
                Alert ''Success'' ''Deleted project successfully'' IconSuccess])
         else (st, [Http (deleteProject projectId), Http getProjects,
                    Alert ''Success'' ''Deleted project successfully'' IconSuccess,
                    ConsoleError ''Error fetching projects:'']))
      else (st, [Http (deleteProject projectId), ConsoleError ''Error deleting project:'']))"
  by (simp add: handleDeleteProject_def fetchProjects_settle_def)

lemma handleDeleteStage_ready:
  assumes "selectedProject st = Some sel" "sel \<noteq> []"
  shows "handleDeleteStage srv st stageId =
     (if resolves srv (deleteStage sel stageId) then
        (if resolves srv (getStages sel)
         then (st\<lparr>stages := (case stagesData srv sel of Some ss \<Rightarrow> ss | None \<Rightarrow> [])\<rparr>,
               [Http (deleteStage sel stageId), Http (getStages sel),
                Alert ''Success'' ''Deleted stage successfully'' IconSuccess])
         else (st, [Http (deleteStage sel stageId), Http (getStages sel),
                    Alert ''Success'' ''Deleted stage successfully'' IconSuccess,
                    ConsoleError ''Error fetching stages:'']))
      else (st, [Http (deleteStage sel stageId), ConsoleError ''Error deleting stage:'']))"
  using assms by (simp add: handleDeleteStage_def fetchStages_settle_def)

lemma handleDeleteDownload_result:
  "handleDeleteDownload srv st downloadId =
     (if resolves srv (deleteDownload downloadId) then
        (if resolves srv getDownloads
         then (st\<lparr>downloads := downloadsData srv\<rparr>,
               [Http (deleteDownload downloadId), Http getDownloads,
                Alert ''Success'' ''Deleted download successfully'' IconSuccess])
         else (st, [Http (deleteDownload downloadId), Http getDownloads,
                    Alert ''Success'' ''Deleted download successfully'' IconSuccess,
                    ConsoleError ''Error fetching downloads:'']))
      else (st, [Http (deleteDownload downloadId), ConsoleError ''Error deleting download:'']))"
  by (simp add: handleDeleteDownload_def fetchDownloads_settle_def)

lemma handleChangeStageStatus_ready:
  assumes "selectedProject st = Some sel" "sel \<noteq> []"
  shows "handleChangeStageStatus srv st stageId cur =
     (if resolves srv (putStatus sel stageId (newStatus cur)) then
        (if resolves srv (getStages sel)
         then (st\<lparr>stages := (case stagesData srv sel of Some ss \<Rightarrow> ss | None \<Rightarrow> [])\<rparr>,
               [Http (putStatus sel stageId (newStatus cur)), Http (getStages sel)])
         else (st, [Http (putStatus sel stageId (newStatus cur)), Http (getStages sel),
                    ConsoleError ''Error fetching stages:'']))
      else (st, [Http (putStatus sel stageId (newStatus cur)),
                 ConsoleError ''Error changing stage status:'']))"
  using assms by (simp add: handleChangeStageStatus_def fetchStages_settle_def Let_def)

text \<open>
  C6. When the request of a create or delete handler resolves, the handler has issued
  exactly two requests: its own POST or DELETE and then the GET of the list it
  affects (\<open>/projects\<close> for projects, the selected project for stages,
  \<open>/downloads\<close> for downloads). The list it holds afterwards is what that GET
  answered; when the GET fails it is the list from before. It is never computed on the
  client.
\<close>

theorem mutations_refetch:
  "(projectName st \<noteq> []
      \<and> (\<forall>p \<in> set (projects st).
            toLowerCase (project_projectName p) \<noteq> toLowerCase (projectName st))
      \<and> resolves srv (postProject st) \<longrightarrow>
        map requestLine (requestsOf (snd (handleAddProject toLowerCase srv st))) =
          [(POST, ''https://app-back-99ll.onrender.com/projects''),
           (GET, ''https://app-back-99ll.onrender.com/projects'')]
        \<and> projects (fst (handleAddProject toLowerCase srv st)) =
            (if resolves srv getProjects then projectsData srv else projects st))
   \<and> (resolves srv (deleteProject projectId) \<longrightarrow>
        map requestLine (requestsOf (snd (handleDeleteProject srv st projectId))) =
          [(DELETE, ''https://app-back-99ll.onrender.com/projects/'' @ projectId),
           (GET, ''https://app-back-99ll.onrender.com/projects'')]
        \<and> projects (fst (handleDeleteProject srv st projectId)) =
            (if resolves srv getProjects then projectsData srv else projects st))
   \<and> (selectedProject st = Some sel \<and> sel \<noteq> [] \<and> stageName st \<noteq> []
      \<and> resolves srv (postStage sel st) \<longrightarrow>
        map requestLine (requestsOf (snd (handleAddStage srv st))) =
          [(POST, ''https://app-back-99ll.onrender.com/projects/stage/'' @ sel),
           (GET, ''https://app-back-99ll.onrender.com/projects/'' @ sel)]
        \<and> stages (fst (handleAddStage srv st)) =
            (if resolves srv (getStages sel)
             then (case stagesData srv sel of Some ss \<Rightarrow> ss | None \<Rightarrow> [])
             else stages st))
   \<and> (selectedProject st = Some sel \<and> sel \<noteq> []
      \<and> resolves srv (deleteStage sel stageId) \<longrightarrow>
        map requestLine (requestsOf (snd (handleDeleteStage srv st stageId))) =
          [(DELETE, ''https://app-back-99ll.onrender.com/projects/stage/'' @ sel @ ''/''
                    @ numberToString stageId),
           (GET, ''https://app-back-99ll.onrender.com/projects/'' @ sel)]
        \<and> stages (fst (handleDeleteStage srv st stageId)) =
            (if resolves srv (getStages sel)
             then (case stagesData srv sel of Some ss \<Rightarrow> ss | None \<Rightarrow> [])
             else stages st))
   \<and> (downloadName st \<noteq> [] \<and> downloadDescription st \<noteq> [] \<and> downloadUrl st \<noteq> []
      \<and> resolves srv (postDownload st) \<longrightarrow>
        map requestLine (requestsOf (snd (handleAddDownload srv st))) =
          [(POST, ''https://app-back-99ll.onrender.com/downloads''),
           (GET, ''https://app-back-99ll.onrender.com/downloads'')]
        \<and> downloads (fst (handleAddDownload srv st)) =
            (if resolves srv getDownloads then downloadsData srv else downloads st))
   \<and> (resolves srv (deleteDownload downloadId) \<longrightarrow>
        map requestLine (requestsOf (snd (handleDeleteDownload srv st downloadId))) =
          [(DELETE, ''https://app-back-99ll.onrender.com/downloads/''
                    @ numberToString downloadId),
           (GET, ''https://app-back-99ll.onrender.com/downloads'')]
        \<and> downloads (fst (handleDeleteDownload srv st downloadId)) =
            (if resolves srv getDownloads then downloadsData srv else downloads st))"
proof (intro conjI impI; (elim conjE)?)
  assume "projectName st \<noteq> []"
    and "\<forall>p \<in> set (projects st).
           toLowerCase (project_projectName p) \<noteq> toLowerCase (projectName st)"
    and ok: "resolves srv (postProject st)"
  note run = handleAddProject_fresh [OF this(1,2)]
  show "map requestLine (requestsOf (snd (handleAddProject toLowerCase srv st))) =
          [(POST, ''https://app-back-99ll.onrender.com/projects''),
           (GET, ''https://app-back-99ll.onrender.com/projects'')]"
    unfolding run using ok by (simp add: requestLine_def request_defs baseUrl_def)
  show "projects (fst (handleAddProject toLowerCase srv st)) =
            (if resolves srv getProjects then projectsData srv else projects st)"
    unfolding run using ok by simp
next
  assume ok: "resolves srv (deleteProject projectId)"
  show "map requestLine (requestsOf (snd (handleDeleteProject srv st projectId))) =
          [(DELETE, ''https://app-back-99ll.onrender.com/projects/'' @ projectId),
           (GET, ''https://app-back-99ll.onrender.com/projects'')]"
    unfolding handleDeleteProject_result using ok
    by (simp add: requestLine_def request_defs baseUrl_def)
  show "projects (fst (handleDeleteProject srv st projectId)) =
            (if resolves srv getProjects then projectsData srv else projects st)"
    unfolding handleDeleteProject_result using ok by simp
next
  assume "selectedProject st = Some sel" "sel \<noteq> []" "stageName st \<noteq> []"
    and ok: "resolves srv (postStage sel st)"
  note run = handleAddStage_ready [OF this(1,2,3), of srv]
  show "map requestLine (requestsOf (snd (handleAddStage srv st))) =
          [(POST, ''https://app-back-99ll.onrender.com/projects/stage/'' @ sel),
           (GET, ''https://app-back-99ll.onrender.com/projects/'' @ sel)]"
    unfolding run using ok by (simp add: requestLine_def request_defs baseUrl_def)
  show "stages (fst (handleAddStage srv st)) =
            (if resolves srv (getStages sel)
             then (case stagesData srv sel of Some ss \<Rightarrow> ss | None \<Rightarrow> [])
             else stages st)"
    unfolding run using ok by simp
next
  assume "selectedProject st = Some sel" "sel \<noteq> []"
    and ok: "resolves srv (deleteStage sel stageId)"
  note run = handleDeleteStage_ready [OF this(1,2), of srv stageId]
  show "map requestLine (requestsOf (snd (handleDeleteStage srv st stageId))) =
          [(DELETE, ''https://app-back-99ll.onrender.com/projects/stage/'' @ sel @ ''/''
                    @ numberToString stageId),
           (GET, ''https://app-back-99ll.onrender.com/projects/'' @ sel)]"
    unfolding run using ok by (simp add: requestLine_def request_defs baseUrl_def)
  show "stages (fst (handleDeleteStage srv st stageId)) =
            (if resolves srv (getStages sel)
             then (case stagesData srv sel of Some ss \<Rightarrow> ss | None \<Rightarrow> [])
             else stages st)"
    unfolding run using ok by simp
next
  assume "downloadName st \<noteq> []" "downloadDescription st \<noteq> []" "downloadUrl st \<noteq> []"
    and ok: "resolves srv (postDownload st)"
  note run = handleAddDownload_ready [OF this(1,2,3), of srv]
  show "map requestLine (requestsOf (snd (handleAddDownload srv st))) =
          [(POST, ''https://app-back-99ll.onrender.com/downloads''),
           (GET, ''https://app-back-99ll.onrender.com/downloads'')]"
    unfolding run using ok by (simp add: requestLine_def request_defs baseUrl_def)
  show "downloads (fst (handleAddDownload srv st)) =
            (if resolves srv getDownloads then downloadsData srv else downloads st)"
    unfolding run using ok by simp
next
  assume ok: "resolves srv (deleteDownload downloadId)"
  show "map requestLine (requestsOf (snd (handleDeleteDownload srv st downloadId))) =
          [(DELETE, ''https://app-back-99ll.onrender.com/downloads/''
                    @ numberToString downloadId),
           (GET, ''https://app-back-99ll.onrender.com/downloads'')]"
    unfolding handleDeleteDownload_result using ok
    by (simp add: requestLine_def request_defs baseUrl_def)
  show "downloads (fst (handleDeleteDownload srv st downloadId)) =
            (if resolves srv getDownloads then downloadsData srv else downloads st)"
    unfolding handleDeleteDownload_result using ok by simp
qed

theorem mutations_refetch_witness:
  "map requestLine (requestsOf (snd (handleAddProject asciiLowerCase onlineServer filledPanel))) =
     [(POST, ''https://app-back-99ll.onrender.com/projects''),
      (GET, ''https://app-back-99ll.onrender.com/projects'')]
   \<and> projects (fst (handleAddProject asciiLowerCase onlineServer filledPanel)) = [alpha]
   \<and> projects (fst (handleDeleteProject onlineServer filledPanel ''p1'')) = [alpha]
   \<and> map requestLine (requestsOf (snd (handleAddStage onlineServer filledPanel))) =
       [(POST, ''https://app-back-99ll.onrender.com/projects/stage/p1''),
        (GET, ''https://app-back-99ll.onrender.com/projects/p1'')]
   \<and> stages (fst (handleAddStage onlineServer filledPanel)) = sampleStages
   \<and> stages (fst (handleDeleteStage onlineServer filledPanel 2)) = sampleStages
   \<and> downloads (fst (handleAddDownload onlineServer filledPanel)) = [manual]
   \<and> downloads (fst (handleDeleteDownload onlineServer filledPanel 7)) = [manual]"
proof -
  have fresh: "\<forall>p \<in> set (projects filledPanel).
      asciiLowerCase (project_projectName p) \<noteq> asciiLowerCase (projectName filledPanel)"
    by (simp add: filledPanel_def alpha_def lower_samples)
  have form: "projectName filledPanel \<noteq> []" "selectedProject filledPanel = Some ''p1''"
      "stageName filledPanel \<noteq> []" "downloadName filledPanel \<noteq> []"
      "downloadDescription filledPanel \<noteq> []" "downloadUrl filledPanel \<noteq> []"
    by (simp_all add: filledPanel_def)
  have srv: "resolves onlineServer r" "projectsData onlineServer = [alpha]"
      "downloadsData onlineServer = [manual]" "stagesData onlineServer ''p1'' = Some sampleStages"
    for r
    by (simp_all add: onlineServer_def always_def stagesOfP1_def)
  show ?thesis
    using mutations_refetch [where st = filledPanel and srv = onlineServer
        and toLowerCase = asciiLowerCase and projectId = "''p1''" and sel = "''p1''"
        and stageId = 2 and downloadId = 7]
      fresh form srv
    by simp
qed

section \<open>The remote API\<close>

















text \<open>
  The shapes do not overlap. An address of the stage family is not taken for
  \<open>/projects/:id\<close>, so it has the verbs of its own shape only, and an address with an
  empty id has no shape.
\<close>

lemma slash_inside: "x @ CHR ''/'' # y = z \<Longrightarrow> CHR ''/'' \<in> set z"
  by auto

lemma no_shape:
  assumes "\<And>e. list_all segment (parameters e) \<Longrightarrow> allowedVerb e v \<Longrightarrow> endpointPath e \<noteq> p"
  shows "\<not> specRequest \<lparr>verb = v, url = ''https://app-back-99ll.onrender.com'' @ p, data = d\<rparr>"
  using assms by (auto simp: specRequest_def)

lemma specRequest_rejects:
  "\<not> specRequest \<lparr>verb = GET,
       url = ''https://app-back-99ll.onrender.com/projects/stage/p1/2'', data = NoData\<rparr>"
  "\<not> specRequest \<lparr>verb = POST,
       url = ''https://app-back-99ll.onrender.com/projects/stage/p1/2'', data = NoData\<rparr>"
  "\<not> specRequest \<lparr>verb = DELETE,
       url = ''https://app-back-99ll.onrender.com/projects/stage/p1'', data = NoData\<rparr>"
  "\<not> specRequest \<lparr>verb = DELETE,
       url = ''https://app-back-99ll.onrender.com/downloads/'', data = NoData\<rparr>"
  "\<not> specRequest \<lparr>verb = PUT,
       url = ''https://app-back-99ll.onrender.com/projects'', data = NoData\<rparr>"
proof -
  have "\<not> specRequest \<lparr>verb = GET,
       url = ''https://app-back-99ll.onrender.com'' @ ''/projects/stage/p1/2'', data = NoData\<rparr>"
  proof (rule no_shape)
    fix e
    assume "list_all segment (parameters e)" "allowedVerb e GET"
    then show "endpointPath e \<noteq> ''/projects/stage/p1/2''"
      by (cases e) (auto simp: segment_def dest: slash_inside)
  qed
  then show "\<not> specRequest \<lparr>verb = GET,
       url = ''https://app-back-99ll.onrender.com/projects/stage/p1/2'', data = NoData\<rparr>"
    by simp
  have "\<not> specRequest \<lparr>verb = POST,
       url = ''https://app-back-99ll.onrender.com'' @ ''/projects/stage/p1/2'', data = NoData\<rparr>"
  proof (rule no_shape)
    fix e
    assume "list_all segment (parameters e)" "allowedVerb e POST"
    then show "endpointPath e \<noteq> ''/projects/stage/p1/2''"
      by (cases e) (auto simp: segment_def dest: slash_inside)
  qed
  then show "\<not> specRequest \<lparr>verb = POST,
       url = ''https://app-back-99ll.onrender.com/projects/stage/p1/2'', data = NoData\<rparr>"
    by simp
  have "\<not> specRequest \<lparr>verb = DELETE,
       url = ''https://app-back-99ll.onrender.com'' @ ''/projects/stage/p1'', data = NoData\<rparr>"
  proof (rule no_shape)
    fix e
    assume "list_all segment (parameters e)" "allowedVerb e DELETE"
    then show "endpointPath e \<noteq> ''/projects/stage/p1''"
      by (cases e) (auto simp: segment_def dest: slash_inside)
  qed
  then show "\<not> specRequest \<lparr>verb = DELETE,
       url = ''https://app-back-99ll.onrender.com/projects/stage/p1'', data = NoData\<rparr>"
    by simp
  have "\<not> specRequest \<lparr>verb = DELETE,
       url = ''https://app-back-99ll.onrender.com'' @ ''/downloads/'', data = NoData\<rparr>"
  proof (rule no_shape)
    fix e
    assume "list_all segment (parameters e)" "allowedVerb e DELETE"
    then show "endpointPath e \<noteq> ''/downloads/''"
      by (cases e) (auto simp: segment_def dest: slash_inside)
  qed
  then show "\<not> specRequest \<lparr>verb = DELETE,
       url = ''https://app-back-99ll.onrender.com/downloads/'', data = NoData\<rparr>"
    by simp
  have "\<not> specRequest \<lparr>verb = PUT,
       url = ''https://app-back-99ll.onrender.com'' @ ''/projects'', data = NoData\<rparr>"
  proof (rule no_shape)
    fix e
    assume "list_all segment (parameters e)" "allowedVerb e PUT"
    then show "endpointPath e \<noteq> ''/projects''"
      by (cases e) (auto simp: segment_def dest: slash_inside)
  qed
  then show "\<not> specRequest \<lparr>verb = PUT,
       url = ''https://app-back-99ll.onrender.com/projects'', data = NoData\<rparr>"
    by simp
qed
















section \<open>Client-side stores\<close>

lemma fetchProjects_quiet: "browserWritesOf (snd (fetchProjects srv st)) = []"
  by (simp add: fetchProjects_def fetchProjects_settle_def)

lemma fetchDownloads_quiet: "browserWritesOf (snd (fetchDownloads srv st)) = []"
  by (simp add: fetchDownloads_def fetchDownloads_settle_def)

lemma fetchStages_quiet: "browserWritesOf (snd (fetchStages srv st)) = []"
  by (simp add: fetchStages_def fetchStages_settle_def split: option.splits)

lemma handleAddProject_quiet: "browserWritesOf (snd (handleAddProject toLowerCase srv st)) = []"
  by (simp add: handleAddProject_def fetchProjects_settle_def split: option.splits)

lemma handleAddStage_quiet: "browserWritesOf (snd (handleAddStage srv st)) = []"
  by (simp add: handleAddStage_def fetchStages_settle_def split: option.splits)

lemma handleAddDownload_quiet: "browserWritesOf (snd (handleAddDownload srv st)) = []"
  by (simp add: handleAddDownload_def fetchDownloads_settle_def)

lemma handleChangeStageStatus_quiet:
  "browserWritesOf (snd (handleChangeStageStatus srv st stageId cur)) = []"
  by (simp add: handleChangeStageStatus_def fetchStages_settle_def Let_def split: option.splits)

lemma handleDeleteProject_quiet:
  "browserWritesOf (snd (handleDeleteProject srv st projectId)) = []"
  by (simp add: handleDeleteProject_result)

lemma handleDeleteStage_quiet: "browserWritesOf (snd (handleDeleteStage srv st stageId)) = []"
  by (simp add: handleDeleteStage_def fetchStages_settle_def split: option.splits)

lemma handleDeleteDownload_quiet:
  "browserWritesOf (snd (handleDeleteDownload srv st downloadId)) = []"
  by (simp add: handleDeleteDownload_result)

lemma handleStatusChange_quiet:
  "browserWritesOf (snd (handleStatusChange srv projectId isAdmin stgs stageId s)) = []"
  by (simp add: handleStatusChange_def makeApiCall_def Let_def)

lemma onDragEnd_quiet:
  "browserWritesOf (snd (onDragEnd srv projectId isAdmin stgs result)) = []"
  by (simp add: onDragEnd_def persistOrder_def Let_def split: option.splits)

lemma mountEffect_result:
  "mountEffect localStorage href =
     (localStorage(''lastPage'' \<mapsto> href),
      StorageSet ''lastPage'' href # (if href \<noteq> [] then [HistoryReplace href] else []))"
  by (simp add: mountEffect_def Let_def)

text \<open>
  C8, as the code has it. No fetch and no handler of either component writes to the
  browser outside the component state: none calls \<open>localStorage.setItem\<close> or
  \<open>history.replaceState\<close>, so projects, stages and downloads are kept by the server
  alone. The one write to a client-side store is the mount effect of the public view,
  which stores the address of the page in \<open>localStorage\<close> under \<open>lastPage\<close> and
  replaces the current history entry with it.
\<close>

theorem only_mount_writes_browser:
  "browserWritesOf (snd (fetchProjects srv st)) = []
   \<and> browserWritesOf (snd (fetchDownloads srv st)) = []
   \<and> browserWritesOf (snd (fetchStages srv st)) = []
   \<and> browserWritesOf (snd (handleAddProject toLowerCase srv st)) = []
   \<and> browserWritesOf (snd (handleAddStage srv st)) = []
   \<and> browserWritesOf (snd (handleAddDownload srv st)) = []
   \<and> browserWritesOf (snd (handleChangeStageStatus srv st stageKey cur)) = []
   \<and> browserWritesOf (snd (handleDeleteProject srv st projectKey)) = []
   \<and> browserWritesOf (snd (handleDeleteStage srv st stageId)) = []
   \<and> browserWritesOf (snd (handleDeleteDownload srv st downloadId)) = []
   \<and> browserWritesOf (snd (handleStatusChange srv projectId isAdmin stgs stageId s)) = []
   \<and> browserWritesOf (snd (onDragEnd srv projectId isAdmin stgs result)) = []
   \<and> mountEffect localStorage href =
       (localStorage(''lastPage'' \<mapsto> href),
        StorageSet ''lastPage'' href # (if href \<noteq> [] then [HistoryReplace href] else []))"
  by (intro conjI fetchProjects_quiet fetchDownloads_quiet fetchStages_quiet
      handleAddProject_quiet handleAddStage_quiet handleAddDownload_quiet
      handleChangeStageStatus_quiet handleDeleteProject_quiet handleDeleteStage_quiet
      handleDeleteDownload_quiet handleStatusChange_quiet onDragEnd_quiet mountEffect_result)

text \<open>
  The claim as it was written says that nothing is persisted in the browser. Mounting
  the public view on a browser whose storage is empty leaves the page address in
  \<open>localStorage\<close>.
\<close>

theorem mount_writes_localStorage:
  "browserWritesOf (snd (mountEffect emptyStorage ''https://example.org/projects/1'')) =
     [StorageSet ''lastPage'' ''https://example.org/projects/1'',
      HistoryReplace ''https://example.org/projects/1'']
   \<and> fst (mountEffect emptyStorage ''https://example.org/projects/1'') ''lastPage'' =
       Some ''https://example.org/projects/1''
   \<and> emptyStorage ''lastPage'' = None"
  by (simp add: mountEffect_def emptyStorage_def Let_def)

section \<open>Failed requests\<close>

lemma fetchProjects_caught: "unhandledOf (snd (fetchProjects srv st)) = []"
  by (simp add: fetchProjects_def fetchProjects_settle_def)

lemma fetchDownloads_caught: "unhandledOf (snd (fetchDownloads srv st)) = []"
  by (simp add: fetchDownloads_def fetchDownloads_settle_def)

lemma fetchStages_caught: "unhandledOf (snd (fetchStages srv st)) = []"
  by (simp add: fetchStages_def fetchStages_settle_def split: option.splits)

lemma handleAddProject_caught: "unhandledOf (snd (handleAddProject toLowerCase srv st)) = []"
  by (simp add: handleAddProject_def fetchProjects_settle_def split: option.splits)

lemma handleAddStage_caught: "unhandledOf (snd (handleAddStage srv st)) = []"
  by (simp add: handleAddStage_def fetchStages_settle_def split: option.splits)

lemma handleAddDownload_caught: "unhandledOf (snd (handleAddDownload srv st)) = []"
  by (simp add: handleAddDownload_def fetchDownloads_settle_def)

lemma handleChangeStageStatus_caught:
  "unhandledOf (snd (handleChangeStageStatus srv st stageId cur)) = []"
  by (simp add: handleChangeStageStatus_def fetchStages_settle_def Let_def split: option.splits)

lemma handleDeleteProject_caught:
  "unhandledOf (snd (handleDeleteProject srv st projectId)) = []"
  by (simp add: handleDeleteProject_result)

lemma handleDeleteStage_caught: "unhandledOf (snd (handleDeleteStage srv st stageId)) = []"
  by (simp add: handleDeleteStage_def fetchStages_settle_def split: option.splits)

lemma handleDeleteDownload_caught:
  "unhandledOf (snd (handleDeleteDownload srv st downloadId)) = []"
  by (simp add: handleDeleteDownload_result)

lemma onDragEnd_caught:
  "unhandledOf (snd (onDragEnd srv projectId isAdmin stgs result)) = []"
  by (simp add: onDragEnd_def persistOrder_def Let_def split: option.splits)

text \<open>
  C5, as the code has it. A request that fails inside a \<open>try\<close> block is caught by
  the operation that issued it and logged to the console; the operation then stops
  with the state as it was, and issues no further request. The three add handlers of
  the admin panel and \<open>persistOrder\<close> also show an error dialog. The three fetches,
  the status toggle and the three delete handlers of the admin panel show none. None
  of these operations lets a failure escape.
\<close>

theorem failures_caught:
  "(\<not> resolves srv getProjects \<longrightarrow>
      fetchProjects srv st = (st, [Http getProjects, ConsoleError ''Error fetching projects:'']))
   \<and> (\<not> resolves srv getDownloads \<longrightarrow>
      fetchDownloads srv st =
        (st, [Http getDownloads, ConsoleError ''Error fetching downloads:'']))
   \<and> (selectedProject st = Some sel \<and> sel \<noteq> [] \<and> \<not> resolves srv (getStages sel) \<longrightarrow>
      fetchStages srv st =
        (st, [Http (getStages sel), ConsoleError ''Error fetching stages:'']))
   \<and> (projectName st \<noteq> []
      \<and> (\<forall>p \<in> set (projects st).
            toLowerCase (project_projectName p) \<noteq> toLowerCase (projectName st))
      \<and> \<not> resolves srv (postProject st) \<longrightarrow>
      handleAddProject toLowerCase srv st =
        (st, [Http (postProject st), ConsoleError ''Error adding project:'',
              Alert ''Error'' ''Error adding project. Please try again.'' IconError]))
   \<and> (selectedProject st = Some sel \<and> sel \<noteq> [] \<and> stageName st \<noteq> []
      \<and> \<not> resolves srv (postStage sel st) \<longrightarrow>
      handleAddStage srv st =
        (st, [Http (postStage sel st), ConsoleError ''Error adding stage:'',
              Alert ''Error'' ''Error adding stage. Please try again.'' IconError]))
   \<and> (downloadName st \<noteq> [] \<and> downloadDescription st \<noteq> [] \<and> downloadUrl st \<noteq> []
      \<and> \<not> resolves srv (postDownload st) \<longrightarrow>
      handleAddDownload srv st =
        (st, [Http (postDownload st), ConsoleError ''Error adding download:'',
              Alert ''Error'' ''Error adding download. Please try again.'' IconError]))
   \<and> (selectedProject st = Some sel \<and> sel \<noteq> []
      \<and> \<not> resolves srv (putStatus sel stageKey (newStatus cur)) \<longrightarrow>
      handleChangeStageStatus srv st stageKey cur =
        (st, [Http (putStatus sel stageKey (newStatus cur)),
              ConsoleError ''Error changing stage status:'']))
   \<and> (\<not> resolves srv (deleteProject projectKey) \<longrightarrow>
      handleDeleteProject srv st projectKey =
        (st, [Http (deleteProject projectKey), ConsoleError ''Error deleting project:'']))
   \<and> (selectedProject st = Some sel \<and> sel \<noteq> []
      \<and> \<not> resolves srv (deleteStage sel stageId) \<longrightarrow>
      handleDeleteStage srv st stageId =
        (st, [Http (deleteStage sel stageId), ConsoleError ''Error deleting stage:'']))
   \<and> (\<not> resolves srv (deleteDownload downloadId) \<longrightarrow>
      handleDeleteDownload srv st downloadId =
        (st, [Http (deleteDownload downloadId), ConsoleError ''Error deleting download:'']))
   \<and> (\<not> resolves srv \<lparr>verb = PUT, url = baseUrl @ ''/reorder/'' @ numberToString projectId,
                         data = ReorderData ordered\<rparr> \<longrightarrow>
      persistOrder srv projectId ordered =
        [Http \<lparr>verb = PUT, url = baseUrl @ ''/reorder/'' @ numberToString projectId,
               data = ReorderData ordered\<rparr>,
         ConsoleError ''Error updating stages:'',
         Alert ''Update Failed'' ''There was an error updating the stages.'' IconError])
   \<and> unhandledOf (snd (fetchProjects srv st)) = []
   \<and> unhandledOf (snd (fetchDownloads srv st)) = []
   \<and> unhandledOf (snd (fetchStages srv st)) = []
   \<and> unhandledOf (snd (handleAddProject toLowerCase srv st)) = []
   \<and> unhandledOf (snd (handleAddStage srv st)) = []
   \<and> unhandledOf (snd (handleAddDownload srv st)) = []
   \<and> unhandledOf (snd (handleChangeStageStatus srv st stageKey cur)) = []
   \<and> unhandledOf (snd (handleDeleteProject srv st projectKey)) = []
   \<and> unhandledOf (snd (handleDeleteStage srv st stageId)) = []
   \<and> unhandledOf (snd (handleDeleteDownload srv st downloadId)) = []
   \<and> unhandledOf (snd (onDragEnd srv projectId isAdmin stgs result)) = []"
proof (intro conjI impI fetchProjects_caught fetchDownloads_caught fetchStages_caught
    handleAddProject_caught handleAddStage_caught handleAddDownload_caught
    handleChangeStageStatus_caught handleDeleteProject_caught handleDeleteStage_caught
    handleDeleteDownload_caught onDragEnd_caught; (elim conjE)?)
  assume "\<not> resolves srv getProjects"
  then show "fetchProjects srv st =
      (st, [Http getProjects, ConsoleError ''Error fetching projects:''])"
    by (simp add: fetchProjects_def fetchProjects_settle_def)
next
  assume "\<not> resolves srv getDownloads"
  then show "fetchDownloads srv st =
      (st, [Http getDownloads, ConsoleError ''Error fetching downloads:''])"
    by (simp add: fetchDownloads_def fetchDownloads_settle_def)
next
  assume "selectedProject st = Some sel" "sel \<noteq> []" "\<not> resolves srv (getStages sel)"
  then show "fetchStages srv st =
      (st, [Http (getStages sel), ConsoleError ''Error fetching stages:''])"
    by (simp add: fetchStages_ready)
next
  assume "projectName st \<noteq> []"
    "\<forall>p \<in> set (projects st).
       toLowerCase (project_projectName p) \<noteq> toLowerCase (projectName st)"
    "\<not> resolves srv (postProject st)"
  then show "handleAddProject toLowerCase srv st =
      (st, [Http (postProject st), ConsoleError ''Error adding project:'',
            Alert ''Error'' ''Error adding project. Please try again.'' IconError])"
    by (simp add: handleAddProject_fresh)
next
  assume "selectedProject st = Some sel" "sel \<noteq> []" "stageName st \<noteq> []"
    "\<not> resolves srv (postStage sel st)"
  then show "handleAddStage srv st =
      (st, [Http (postStage sel st), ConsoleError ''Error adding stage:'',
            Alert ''Error'' ''Error adding stage. Please try again.'' IconError])"
    by (simp add: handleAddStage_ready)
next
  assume "downloadName st \<noteq> []" "downloadDescription st \<noteq> []" "downloadUrl st \<noteq> []"
    "\<not> resolves srv (postDownload st)"
  then show "handleAddDownload srv st =
      (st, [Http (postDownload st), ConsoleError ''Error adding download:'',
            Alert ''Error'' ''Error adding download. Please try again.'' IconError])"
    by (simp add: handleAddDownload_ready)
next
  assume "selectedProject st = Some sel" "sel \<noteq> []"
    "\<not> resolves srv (putStatus sel stageKey (newStatus cur))"
  then show "handleChangeStageStatus srv st stageKey cur =
      (st, [Http (putStatus sel stageKey (newStatus cur)),
            ConsoleError ''Error changing stage status:''])"
    by (simp add: handleChangeStageStatus_ready)
next
  assume "\<not> resolves srv (deleteProject projectKey)"
  then show "handleDeleteProject srv st projectKey =
      (st, [Http (deleteProject projectKey), ConsoleError ''Error deleting project:''])"
    by (simp add: handleDeleteProject_result)
next
  assume "selectedProject st = Some sel" "sel \<noteq> []"
    "\<not> resolves srv (deleteStage sel stageId)"
  then show "handleDeleteStage srv st stageId =
      (st, [Http (deleteStage sel stageId), ConsoleError ''Error deleting stage:''])"
    by (simp add: handleDeleteStage_ready)
next
  assume "\<not> resolves srv (deleteDownload downloadId)"
  then show "handleDeleteDownload srv st downloadId =
      (st, [Http (deleteDownload downloadId), ConsoleError ''Error deleting download:''])"
    by (simp add: handleDeleteDownload_result)
next
  assume "\<not> resolves srv \<lparr>verb = PUT, url = baseUrl @ ''/reorder/'' @ numberToString projectId,
                         data = ReorderData ordered\<rparr>"
  then show "persistOrder srv projectId ordered =
        [Http \<lparr>verb = PUT, url = baseUrl @ ''/reorder/'' @ numberToString projectId,
               data = ReorderData ordered\<rparr>,
         ConsoleError ''Error updating stages:'',
         Alert ''Update Failed'' ''There was an error updating the stages.'' IconError]"
    by (simp add: persistOrder_def Let_def)
qed

theorem failures_caught_witness:
  "fetchProjects offlineServer filledPanel =
     (filledPanel, [Http getProjects, ConsoleError ''Error fetching projects:''])
   \<and> fetchStages offlineServer filledPanel =
     (filledPanel, [Http (getStages ''p1''), ConsoleError ''Error fetching stages:''])
   \<and> handleAddProject asciiLowerCase offlineServer filledPanel =
     (filledPanel, [Http (postProject filledPanel), ConsoleError ''Error adding project:'',
                    Alert ''Error'' ''Error adding project. Please try again.'' IconError])
   \<and> handleAddStage offlineServer filledPanel =
     (filledPanel, [Http (postStage ''p1'' filledPanel), ConsoleError ''Error adding stage:'',
                    Alert ''Error'' ''Error adding stage. Please try again.'' IconError])
   \<and> handleAddDownload offlineServer filledPanel =
     (filledPanel, [Http (postDownload filledPanel), ConsoleError ''Error adding download:'',
                    Alert ''Error'' ''Error adding download. Please try again.'' IconError])
   \<and> handleChangeStageStatus offlineServer filledPanel ''2'' ''ongoing'' =
     (filledPanel, [Http (putStatus ''p1'' ''2'' ''completed''),
                    ConsoleError ''Error changing stage status:''])
   \<and> handleDeleteStage offlineServer filledPanel 2 =
     (filledPanel, [Http (deleteStage ''p1'' 2), ConsoleError ''Error deleting stage:''])
   \<and> handleDeleteDownload offlineServer filledPanel 7 =
     (filledPanel, [Http (deleteDownload 7), ConsoleError ''Error deleting download:''])"
proof -
  have fresh: "\<forall>p \<in> set (projects filledPanel).
      asciiLowerCase (project_projectName p) \<noteq> asciiLowerCase (projectName filledPanel)"
    by (simp add: filledPanel_def alpha_def lower_samples)
  have form: "projectName filledPanel \<noteq> []" "selectedProject filledPanel = Some ''p1''"
      "stageName filledPanel \<noteq> []" "downloadName filledPanel \<noteq> []"
      "downloadDescription filledPanel \<noteq> []" "downloadUrl filledPanel \<noteq> []"
    by (simp_all add: filledPanel_def)
  have down: "\<not> resolves offlineServer r" for r
    by (simp add: offlineServer_def never_def)
  have next_status: "newStatus ''ongoing'' = ''completed''"
    by (simp add: newStatus_def)
  show ?thesis
    using failures_caught [where srv = offlineServer and st = filledPanel and sel = "''p1''"
        and toLowerCase = asciiLowerCase
        and stageKey = "''2''" and cur = "''ongoing''" and projectKey = "''p1''"
        and stageId = 2 and downloadId = 7 and projectId = 1 and ordered = "[]"
        and isAdmin = True and stgs = sampleStages and result = dropNowhere]
      fresh form down next_status
    by simp
qed

text \<open>
  The claim as it was written promises a dialog for every failed request. When the
  server does not answer, \<open>fetchProjects\<close> logs the failure and shows no dialog.
\<close>

theorem fetch_failure_shows_no_dialog:
  "\<not> resolves offlineServer getProjects
   \<and> snd (fetchProjects offlineServer emptyPanel) =
       [Http getProjects, ConsoleError ''Error fetching projects:'']
   \<and> alertsOf (snd (fetchProjects offlineServer emptyPanel)) = []"
  by (simp add: fetchProjects_def fetchProjects_settle_def offlineServer_def never_def)

text \<open>
  The status edit of the public view sends its request through \<open>makeApiCall\<close>, which
  has no \<open>try\<close> around it (unlike \<open>persistOrder\<close> beside it): the stages are already
  updated on the client when the rejection leaves the handler.
\<close>

lemma status_edit_failure_escapes:
  "handleStatusChange offlineServer 1 True [stageB] 2 ''completed'' =
     ([stageB\<lparr>stage_status := ''completed''\<rparr>],
      [Http \<lparr>verb = PUT, url = ''https://app-back-99ll.onrender.com/projects/stage/1/2'',
             data = StatusData ''completed''\<rparr>,
       Unhandled])"
  by code_simp

end
